theory Spec2Isabelle
  imports Main "HOL-Library.Word"
begin

unbundle bit_operations_syntax

section \<open>Errors\<close>

text \<open>
  The exceptions the two scripts can meet. None of them is caught by the scripts, so an
  exception ends the script where it is raised. \<open>binascii_Error\<close> is what
  \<^verbatim>\<open>base64.b64decode\<close> raises; \<open>ValueError\<close> is what the imaging library raises on
  a bad size or box, \<open>OverflowError\<close> and \<open>MemoryError\<close> what it raises on a size too
  large; the others are the \<^verbatim>\<open>OSError\<close> subclasses of the file system.
\<close>

datatype error =
    ValueError
  | OverflowError
  | MemoryError
  | binascii_Error
  | FileNotFoundError
  | FileExistsError
  | IsADirectoryError
  | NotADirectoryError

datatype outcome = Done | Raised error

section \<open>The procedural icon drawer (create\_new\_icons.py)\<close>

subsection \<open>The imaging library, as far as the script calls it\<close>

text \<open>
  The rasteriser of the imaging library is not part of the repository. An image is modelled
  by what \<^verbatim>\<open>Image.new\<close> fixes (mode, size, initial colour) and by the drawing
  primitives applied to it, in the order of the calls, each with the arguments it received.
\<close>

datatype colour = RGBA int int int int | Named string

datatype draw_op =
    Rounded_rectangle "int list" int colour
  | Line "int list" colour int

record image =
  im_mode :: string
  im_size :: "int \<times> int"
  im_background :: colour
  im_ops :: "draw_op list"

definition Image_new :: "string \<Rightarrow> int \<times> int \<Rightarrow> colour \<Rightarrow> error + image" where
  \<comment> \<open>The library refuses a negative width or height, then a width or height that does
      not fit a C \<^verbatim>\<open>int\<close> (from \<open>2^31\<close>), then a width above \<^verbatim>\<open>INT_MAX / 4 - 1\<close>,
      whose rows of four-byte pixels it could not index. An allocation that fails because
      the machine has too little memory raises \<open>MemoryError\<close> as well, at a size that
      depends on the machine: it is not modelled, and no property below asserts that an
      image is created for every size.\<close>
  "Image_new mode sz colour =
     (if fst sz < 0 \<or> snd sz < 0 then Inl ValueError
      else if 2147483648 \<le> fst sz \<or> 2147483648 \<le> snd sz then Inl OverflowError
      else if 536870910 < fst sz then Inl MemoryError
      else Inr \<lparr>im_mode = mode, im_size = sz, im_background = colour, im_ops = []\<rparr>)"

definition rounded_rectangle :: "int list \<Rightarrow> int \<Rightarrow> colour \<Rightarrow> image \<Rightarrow> error + image" where
  \<comment> \<open>The box is \<open>[x0, y0, x1, y1]\<close>; the library refuses \<open>x1 < x0\<close>, \<open>y1 < y0\<close>
      and a negative radius, each with a \<open>ValueError\<close>.\<close>
  "rounded_rectangle xy radius fill img =
     (case xy of
        [x0, y0, x1, y1] \<Rightarrow>
          if x1 < x0 then Inl ValueError
          else if y1 < y0 then Inl ValueError
          else if radius < 0 then Inl ValueError
          else Inr (img\<lparr>im_ops := im_ops img @ [Rounded_rectangle xy radius fill]\<rparr>)
      | _ \<Rightarrow> Inl ValueError)"

definition line :: "int list \<Rightarrow> colour \<Rightarrow> int \<Rightarrow> image \<Rightarrow> error + image" where
  "line xy fill width img = Inr (img\<lparr>im_ops := im_ops img @ [Line xy fill width]\<rparr>)"

subsection \<open>The measurements of \<open>create_icon\<close>\<close>

text \<open>
  The local variables of \<^verbatim>\<open>create_icon(size, filename)\<close>, each as a function of the
  size. Python's \<^verbatim>\<open>//\<close> on integers is floor division, which is \<open>div\<close> on \<open>int\<close>.
\<close>

definition padding :: "int \<Rightarrow> int" where
  "padding sz = sz div 8"

definition rect_coords :: "int \<Rightarrow> int list" where
  "rect_coords sz = [padding sz, padding sz, sz - padding sz, sz - padding sz]"

definition shadow_offset :: "int \<Rightarrow> int" where
  "shadow_offset sz = sz div 16"

definition shadow_coords :: "int \<Rightarrow> int list" where
  "shadow_coords sz =
     [rect_coords sz ! 0 + shadow_offset sz, rect_coords sz ! 1 + shadow_offset sz,
      rect_coords sz ! 2 + shadow_offset sz, rect_coords sz ! 3 + shadow_offset sz]"

definition radius :: "int \<Rightarrow> int" where
  "radius sz = sz div 5"

definition line_x_start :: "int \<Rightarrow> int" where
  "line_x_start sz = rect_coords sz ! 0 + sz div 4"

definition line_x_end :: "int \<Rightarrow> int" where
  "line_x_end sz = rect_coords sz ! 2 - sz div 4"

definition line_y_start :: "int \<Rightarrow> int" where
  "line_y_start sz = rect_coords sz ! 1 + sz div 3"

definition line_spacing :: "int \<Rightarrow> int" where
  "line_spacing sz = sz div 6"

definition line_width :: "int \<Rightarrow> int" where
  "line_width sz = sz div 12"

definition shadow_fill :: colour where
  "shadow_fill = RGBA 0 0 0 50"

definition note_yellow :: colour where
  "note_yellow = Named ''#FEF08A''"

definition amber :: colour where
  "amber = Named ''#D97706''"

subsection \<open>The drawing part of \<open>create_icon\<close>\<close>

definition draw_icon :: "int \<Rightarrow> error + image" where
  \<comment> \<open>Lines 6 to 29 of the script: the image and the four drawing calls.\<close>
  "draw_icon sz =
     (case Image_new ''RGBA'' (sz, sz) (RGBA 0 0 0 0) of
        Inl e \<Rightarrow> Inl e
      | Inr img0 \<Rightarrow>
     (case rounded_rectangle (shadow_coords sz) (radius sz) shadow_fill img0 of
        Inl e \<Rightarrow> Inl e
      | Inr img1 \<Rightarrow>
     (case rounded_rectangle (rect_coords sz) (radius sz) note_yellow img1 of
        Inl e \<Rightarrow> Inl e
      | Inr img2 \<Rightarrow>
     (case line [line_x_start sz, line_y_start sz, line_x_end sz, line_y_start sz]
             amber (line_width sz) img2 of
        Inl e \<Rightarrow> Inl e
      | Inr img3 \<Rightarrow>
        line [line_x_start sz, line_y_start sz + line_spacing sz,
              line_x_end sz, line_y_start sz + line_spacing sz]
             amber (line_width sz) img3))))"

section \<open>The file system, as far as the scripts use it\<close>

text \<open>
  The operating system is not part of the repository. A path is the list of its components
  below the root; the root itself is \<open>[]\<close> and always a directory. The state holds the
  directories and the regular files with their contents. Permissions are not modelled.
\<close>

type_synonym byte = "8 word"

type_synonym path = "string list"

record fs =
  dirs :: "path set"
  files :: "path \<rightharpoonup> byte list"

fun components_aux :: "string \<Rightarrow> string \<Rightarrow> path" where
  "components_aux cur [] = (if cur = [] then [] else [cur])"
| "components_aux cur (c # cs) =
     (if c = CHR ''/'' then (if cur = [] then components_aux [] cs else cur # components_aux [] cs)
      else components_aux (cur @ [c]) cs)"

definition components :: "string \<Rightarrow> path" where
  \<comment> \<open>An absolute path name, cut at its slashes. The names the scripts use are absolute
      and have no \<^verbatim>\<open>.\<close> or \<^verbatim>\<open>..\<close> component; such components and relative names
      are not interpreted.\<close>
  "components name = components_aux [] name"

definition isdir :: "fs \<Rightarrow> path \<Rightarrow> bool" where
  "isdir s p = (p = [] \<or> p \<in> dirs s)"

definition isfile :: "fs \<Rightarrow> path \<Rightarrow> bool" where
  "isfile s p = (files s p \<noteq> None)"

definition path_exists :: "fs \<Rightarrow> path \<Rightarrow> bool" where
  "path_exists s p = (isdir s p \<or> isfile s p)"

definition file_above :: "fs \<Rightarrow> path \<Rightarrow> bool" where
  \<comment> \<open>Some ancestor of \<open>p\<close> is a regular file.\<close>
  "file_above s p = list_ex (\<lambda>n. isfile s (take n p)) [1..<length p]"

definition mkdir :: "path \<Rightarrow> fs \<Rightarrow> outcome \<times> fs" where
  "mkdir p s =
     (if path_exists s p then (Raised FileExistsError, s)
      else if isdir s (butlast p) then (Done, s\<lparr>dirs := insert p (dirs s)\<rparr>)
      else if file_above s p then (Raised NotADirectoryError, s)
      else (Raised FileNotFoundError, s))"


definition open_wb :: "path \<Rightarrow> fs \<Rightarrow> outcome \<times> fs" where
  \<comment> \<open>\<^verbatim>\<open>open(name, 'wb')\<close>: creates the file or truncates it.\<close>
  "open_wb p s =
     (if isdir s p then (Raised IsADirectoryError, s)
      else if isdir s (butlast p) then (Done, s\<lparr>files := (files s)(p \<mapsto> [])\<rparr>)
      else if file_above s p then (Raised NotADirectoryError, s)
      else (Raised FileNotFoundError, s))"

definition f_write :: "path \<Rightarrow> byte list \<Rightarrow> fs \<Rightarrow> fs" where
  \<comment> \<open>\<^verbatim>\<open>f.write(data)\<close> on the file opened at \<open>p\<close>: the bytes go to its end.\<close>
  "f_write p data s = s\<lparr>files := (files s)(p \<mapsto> (case files s p of None \<Rightarrow> [] | Some old \<Rightarrow> old) @ data)\<rparr>"



subsection \<open>Saving an image\<close>



subsection \<open>\<open>create_icon\<close> and the script around it\<close>





section \<open>The decoder-writer (create\_icon.py)\<close>

subsection \<open>The base64 decoder of the standard library\<close>

text \<open>
  \<^verbatim>\<open>base64.b64decode(s)\<close> belongs to Python's standard library, not to the repository.
  It is modelled after the library's decoder in its default, lenient mode
  (\<^verbatim>\<open>validate=False\<close>): a text with a character outside ASCII is refused with a
  \<^verbatim>\<open>ValueError\<close>; characters outside the alphabet are skipped; the data characters are
  read in groups of four, each giving up to three bytes; a padding sequence that completes a
  group ends the decoding; and a group left open at the end of the text raises
  \<^verbatim>\<open>binascii.Error\<close>.
\<close>

definition table_a2b_base64 :: "char \<Rightarrow> byte option" where
  "table_a2b_base64 c =
     (let n = (of_char c :: nat) in
      if 65 \<le> n \<and> n \<le> 90 then Some (of_nat (n - 65))
      else if 97 \<le> n \<and> n \<le> 122 then Some (of_nat (n - 71))
      else if 48 \<le> n \<and> n \<le> 57 then Some (of_nat (n + 4))
      else if n = 43 then Some 62
      else if n = 47 then Some 63
      else None)"

fun a2b_base64 :: "nat \<Rightarrow> byte \<Rightarrow> nat \<Rightarrow> byte list \<Rightarrow> string \<Rightarrow> error + byte list" where
  \<comment> \<open>The decoder's loop, with its state: the position in the group of four, the bits left
      over from the last character, the padding characters seen, and the bytes so far.\<close>
  "a2b_base64 quad_pos leftchar pads bin_data [] =
     (if quad_pos \<noteq> 0 then Inl binascii_Error else Inr bin_data)"
| "a2b_base64 quad_pos leftchar pads bin_data (this_ch # rest) =
     (if this_ch = CHR ''='' then
        (if 2 \<le> quad_pos \<and> 4 \<le> quad_pos + (pads + 1) then Inr bin_data
         else a2b_base64 quad_pos leftchar (if 2 \<le> quad_pos then pads + 1 else pads) bin_data rest)
      else
        (case table_a2b_base64 this_ch of
           None \<Rightarrow> a2b_base64 quad_pos leftchar pads bin_data rest
         | Some v \<Rightarrow>
             if quad_pos = 0 then a2b_base64 1 v 0 bin_data rest
             else if quad_pos = 1 then
               a2b_base64 2 (v AND 0x0f) 0 (bin_data @ [push_bit 2 leftchar OR drop_bit 4 v]) rest
             else if quad_pos = 2 then
               a2b_base64 3 (v AND 0x03) 0 (bin_data @ [push_bit 4 leftchar OR drop_bit 2 v]) rest
             else
               a2b_base64 0 0 0 (bin_data @ [push_bit 6 leftchar OR v]) rest))"

definition b64decode :: "string \<Rightarrow> error + byte list" where
  "b64decode s =
     (if list_ex (\<lambda>c. 128 \<le> (of_char c :: nat)) s then Inl ValueError
      else a2b_base64 0 0 0 [] s)"

text \<open>
  A text is validly base64-encoded (RFC 4648) when it consists of groups of four characters
  of the alphabet, the last group possibly ending in one or two padding characters.
\<close>

definition b64_char :: "char \<Rightarrow> bool" where
  "b64_char c = (table_a2b_base64 c \<noteq> None)"

fun valid_base64 :: "string \<Rightarrow> bool" where
  "valid_base64 [] = True"
| "valid_base64 [a, b, c, d] =
     (b64_char a \<and> b64_char b \<and>
      (c = CHR ''='' \<and> d = CHR ''='' \<or> b64_char c \<and> (d = CHR ''='' \<or> b64_char d)))"
| "valid_base64 (a # b # c # d # rest) =
     (b64_char a \<and> b64_char b \<and> b64_char c \<and> b64_char d \<and> valid_base64 rest)"
| "valid_base64 _ = False"

subsection \<open>The script\<close>

definition icon_base64 :: string where
  "icon_base64 = ''iVBORw0KGgoAAAANSUhEUgAAAIAAAACACAYAAADDPmHLAAAAAXNSR0IArs4c6QAAAARnQU1BAACxjwv8YQUAAAAJcEhZcwAADsMAAA7DAcdvqGQAAABTSURBVHhe7cExAQAAAMKg9U9tDQ+gAAAAAAAAAAAAAAAAAAAAAAAAAAAAAAAAAAAAAAAAAAAAAAAAAAAAAAAAAAAAAAAAAAAAAAAAAAAAAAAAAOBvDLQAAf5MuegAAAAASUVORK5CYII=''"

definition icon_path :: string where
  "icon_path = ''/home/ubuntu/sticky-notes-web/client/public/icon-128.png''"

definition decode_and_write :: "string \<Rightarrow> fs \<Rightarrow> outcome \<times> fs" where
  \<comment> \<open>Lines 7 to 10 of the script, for any embedded text.\<close>
  "decode_and_write payload s =
     (case b64decode payload of
        Inl e \<Rightarrow> (Raised e, s)
      | Inr icon_data \<Rightarrow>
          (case open_wb (components icon_path) s of
             (Raised e, s1) \<Rightarrow> (Raised e, s1)
           | (Done, s1) \<Rightarrow> (Done, f_write (components icon_path) icon_data s1)))"

definition create_icon_py :: "fs \<Rightarrow> outcome \<times> fs" where
  \<comment> \<open>The script with the text it embeds; the final \<^verbatim>\<open>print\<close> is left out.\<close>
  "create_icon_py s = decode_and_write icon_base64 s"

definition icon_png :: "byte list" where
  \<comment> \<open>What the embedded text stands for: the 191 bytes of a PNG file of 128 by 128 pixels.\<close>
  "icon_png =
     [137, 80, 78, 71, 13, 10, 26, 10, 0, 0, 0, 13, 73, 72, 68, 82, 0, 0, 0, 128, 0, 0, 0, 128,
      8, 6, 0, 0, 0, 195, 62, 97, 203, 0, 0, 0, 1, 115, 82, 71, 66, 0, 174, 206, 28, 233,
      0, 0, 0, 4, 103, 65, 77, 65, 0, 0, 177, 143, 11, 252, 97, 5, 0, 0, 0, 9, 112, 72, 89, 115,
      0, 0, 14, 195, 0, 0, 14, 195, 1, 199, 111, 168, 100, 0, 0, 0, 83, 73, 68, 65, 84,
      120, 94, 237, 193, 49, 1, 0, 0, 0, 194, 160, 245, 79, 109, 13, 15, 160]
     @ replicate 61 0
     @ [224, 111, 12, 180, 0, 1, 254, 76, 185, 232, 0, 0, 0, 0, 73, 69, 78, 68, 174, 66, 96, 130]"

section \<open>States and an encoder to run the scripts on\<close>

text \<open>
  \<open>fresh_fs\<close> is the file system at the scripts' first run: the directories down to the
  client's public folder exist, the icons directory and all files are missing. \<open>icons_fs\<close>
  is the same with the icons directory. \<open>sample_encode\<close> stands in for the library's
  encoder when a script is run on an example: the first four bytes of the format, then the
  width, the height and the number of drawing calls, a byte each.
\<close>

definition public_dir :: path where
  "public_dir = [''home'', ''ubuntu'', ''sticky-notes-web'', ''client'', ''public'']"

definition fresh_fs :: fs where
  "fresh_fs = \<lparr>dirs = {take 1 public_dir, take 2 public_dir, take 3 public_dir,
                         take 4 public_dir, public_dir},
                 files = Map.empty\<rparr>"



section \<open>Properties of the drawer\<close>

lemmas geom_defs = padding_def rect_coords_def shadow_offset_def shadow_coords_def radius_def
  line_x_start_def line_x_end_def line_y_start_def line_spacing_def line_width_def

lemma padding_fits: "0 \<le> sz \<Longrightarrow> padding sz \<le> sz - padding sz"
  unfolding padding_def by presburger

lemma radius_nonneg: "0 \<le> sz \<Longrightarrow> 0 \<le> radius sz"
  unfolding radius_def by presburger

lemma rounded_rectangle_rect:
  assumes "0 \<le> sz" and "0 \<le> r"
  shows "rounded_rectangle (rect_coords sz) r c img =
         Inr (img\<lparr>im_ops := im_ops img @ [Rounded_rectangle (rect_coords sz) r c]\<rparr>)"
  using padding_fits [OF assms(1)] assms(2)
  by (simp add: rounded_rectangle_def rect_coords_def)

lemma rounded_rectangle_shadow:
  assumes "0 \<le> sz" and "0 \<le> r"
  shows "rounded_rectangle (shadow_coords sz) r c img =
         Inr (img\<lparr>im_ops := im_ops img @ [Rounded_rectangle (shadow_coords sz) r c]\<rparr>)"
  using padding_fits [OF assms(1)] assms(2)
  by (simp add: rounded_rectangle_def rect_coords_def shadow_coords_def)

text \<open>
  In the model the drawing succeeds exactly for the sizes \<open>Image_new\<close> accepts, and the
  image it returns is the list of the four calls.
\<close>

lemma draw_icon_ops:
  assumes "0 \<le> sz" and "sz \<le> 536870910"
  shows "draw_icon sz =
     Inr \<lparr>im_mode = ''RGBA'', im_size = (sz, sz), im_background = RGBA 0 0 0 0,
          im_ops = [Rounded_rectangle (shadow_coords sz) (radius sz) shadow_fill,
                    Rounded_rectangle (rect_coords sz) (radius sz) note_yellow,
                    Line [line_x_start sz, line_y_start sz, line_x_end sz, line_y_start sz]
                      amber (line_width sz),
                    Line [line_x_start sz, line_y_start sz + line_spacing sz,
                          line_x_end sz, line_y_start sz + line_spacing sz]
                      amber (line_width sz)]\<rparr>"
  using assms radius_nonneg [OF assms(1)]
  by (simp add: draw_icon_def Image_new_def rounded_rectangle_rect rounded_rectangle_shadow line_def)

lemma draw_icon_Inr: "draw_icon sz = Inr img \<Longrightarrow> 0 \<le> sz \<and> sz \<le> 536870910"
  by (auto simp: draw_icon_def Image_new_def split: if_splits)

lemma draw_icon_image:
  assumes "draw_icon sz = Inr img"
  shows "img =
     \<lparr>im_mode = ''RGBA'', im_size = (sz, sz), im_background = RGBA 0 0 0 0,
      im_ops = [Rounded_rectangle (shadow_coords sz) (radius sz) shadow_fill,
                Rounded_rectangle (rect_coords sz) (radius sz) note_yellow,
                Line [line_x_start sz, line_y_start sz, line_x_end sz, line_y_start sz]
                  amber (line_width sz),
                Line [line_x_start sz, line_y_start sz + line_spacing sz,
                      line_x_end sz, line_y_start sz + line_spacing sz]
                  amber (line_width sz)]\<rparr>"
proof -
  from draw_icon_Inr [OF assms] have "0 \<le> sz" and "sz \<le> 536870910" by simp_all
  from draw_icon_ops [OF this] assms show ?thesis by simp
qed

lemma draw_icon_error:
  assumes "draw_icon sz = Inl e"
  shows "(sz < 0 \<and> e = ValueError) \<or> (2147483648 \<le> sz \<and> e = OverflowError)
     \<or> (536870910 < sz \<and> sz < 2147483648 \<and> e = MemoryError)"
proof (cases "0 \<le> sz \<and> sz \<le> 536870910")
  case True
  then show ?thesis using assms by (simp add: draw_icon_ops)
next
  case False
  then show ?thesis using assms
    by (auto simp: draw_icon_def Image_new_def split: if_splits)
qed

text \<open>
  Against C1 as stated: at size 16 the body spans the rows 2 to 14, so a third of the
  region's height below its top edge is row 6, while the first line is drawn at row 7.
\<close>

theorem first_line_not_third_of_region_height:
  "draw_icon 16 =
     Inr \<lparr>im_mode = ''RGBA'', im_size = (16, 16), im_background = RGBA 0 0 0 0,
          im_ops = [Rounded_rectangle [3, 3, 15, 15] 3 (RGBA 0 0 0 50),
                    Rounded_rectangle [2, 2, 14, 14] 3 (Named ''#FEF08A''),
                    Line [6, 7, 10, 7] (Named ''#D97706'') 1,
                    Line [6, 9, 10, 9] (Named ''#D97706'') 1]\<rparr>
   \<and> rect_coords 16 ! 1 + (rect_coords 16 ! 3 - rect_coords 16 ! 1) div 3 = 6
   \<and> line_y_start 16 \<noteq> rect_coords 16 ! 1 + (rect_coords 16 ! 3 - rect_coords 16 ! 1) div 3"
  by (simp add: draw_icon_ops geom_defs shadow_fill_def note_yellow_def amber_def)

text \<open>
  C1, amended: for every size above 0 at which the image is created, the drawer draws, after
  the shadow and the body, two horizontal strokes inside the body's box, inset a quarter of
  the size from the left and the right edge of the body, the first a third of the size
  (size div 3) below the body's top edge, the second size div 6 below the first, each of
  width size div 12 and of the fixed amber colour.
\<close>

theorem decorative_lines:
  assumes "0 < sz" and "draw_icon sz = Inr img"
  shows "length (im_ops img) = 4
     \<and> im_ops img ! 1 =
         Rounded_rectangle [sz div 8, sz div 8, sz - sz div 8, sz - sz div 8] (sz div 5)
           (Named ''#FEF08A'')
     \<and> im_ops img ! 2 =
         Line [sz div 8 + sz div 4, sz div 8 + sz div 3,
               sz - sz div 8 - sz div 4, sz div 8 + sz div 3] (Named ''#D97706'') (sz div 12)
     \<and> im_ops img ! 3 =
         Line [sz div 8 + sz div 4, sz div 8 + sz div 3 + sz div 6,
               sz - sz div 8 - sz div 4, sz div 8 + sz div 3 + sz div 6]
           (Named ''#D97706'') (sz div 12)
     \<and> sz div 8 \<le> sz div 8 + sz div 4
     \<and> sz div 8 + sz div 4 \<le> sz - sz div 8 - sz div 4
     \<and> sz - sz div 8 - sz div 4 \<le> sz - sz div 8
     \<and> sz div 8 \<le> sz div 8 + sz div 3
     \<and> sz div 8 + sz div 3 \<le> sz div 8 + sz div 3 + sz div 6
     \<and> sz div 8 + sz div 3 + sz div 6 \<le> sz - sz div 8"
proof -
  note img = draw_icon_image [OF assms(2)]
  have len: "length (im_ops img) = 4"
    by (subst img) simp
  have body: "im_ops img ! 1 =
      Rounded_rectangle [sz div 8, sz div 8, sz - sz div 8, sz - sz div 8] (sz div 5)
        (Named ''#FEF08A'')"
    by (subst img) (simp add: rect_coords_def padding_def radius_def note_yellow_def)
  have first: "im_ops img ! 2 =
      Line [sz div 8 + sz div 4, sz div 8 + sz div 3,
            sz - sz div 8 - sz div 4, sz div 8 + sz div 3] (Named ''#D97706'') (sz div 12)"
    by (subst img) (simp add: geom_defs amber_def)
  have second: "im_ops img ! 3 =
      Line [sz div 8 + sz div 4, sz div 8 + sz div 3 + sz div 6,
            sz - sz div 8 - sz div 4, sz div 8 + sz div 3 + sz div 6]
        (Named ''#D97706'') (sz div 12)"
    by (subst img) (simp add: geom_defs amber_def)
  have i1: "sz div 8 \<le> sz div 8 + sz div 4" using assms(1) by presburger
  have i2: "sz div 8 + sz div 4 \<le> sz - sz div 8 - sz div 4" using assms(1) by presburger
  have i3: "sz - sz div 8 - sz div 4 \<le> sz - sz div 8" using assms(1) by presburger
  have i4: "sz div 8 \<le> sz div 8 + sz div 3" using assms(1) by presburger
  have d8: "8 * (sz div 8) \<le> sz" by presburger
  have d3: "3 * (sz div 3) \<le> sz" by presburger
  have d6: "6 * (sz div 6) \<le> sz" and n6: "0 \<le> sz div 6" using assms(1) by presburger+
  have i5: "sz div 8 + sz div 3 \<le> sz div 8 + sz div 3 + sz div 6" using n6 by linarith
  have i6: "sz div 8 + sz div 3 + sz div 6 \<le> sz - sz div 8" using d8 d3 d6 assms(1) by linarith
  from len body first second i1 i2 i3 i4 i5 i6 show ?thesis by blast
qed

text \<open>The amended C1 at size 128, where the image is created.\<close>

theorem decorative_lines_witness:
  "\<exists>img. draw_icon 128 = Inr img \<and> length (im_ops img) = 4
     \<and> im_ops img ! 1 = Rounded_rectangle [16, 16, 112, 112] 25 (Named ''#FEF08A'')
     \<and> im_ops img ! 2 = Line [48, 58, 80, 58] (Named ''#D97706'') 10
     \<and> im_ops img ! 3 = Line [48, 79, 80, 79] (Named ''#D97706'') 10"
proof -
  obtain img where drawn: "draw_icon 128 = Inr img" by (simp add: draw_icon_ops)
  have "(0::int) < 128" by simp
  from decorative_lines [OF this drawn] drawn show ?thesis by simp
qed

text \<open>
  C3: for every size above 0, the image the drawer produces has the dimensions size by
  size.
\<close>

theorem image_is_square:
  assumes "0 < sz" and "draw_icon sz = Inr img"
  shows "im_size img = (sz, sz)"
  by (subst draw_icon_image [OF assms(2)]) simp

text \<open>C3 at size 48, where the image is created.\<close>

theorem image_is_square_witness:
  "\<exists>img. draw_icon 48 = Inr img \<and> im_size img = (48, 48)"
proof -
  obtain img where drawn: "draw_icon 48 = Inr img" by (simp add: draw_icon_ops)
  have "(0::int) < 48" by simp
  from image_is_square [OF this drawn] drawn show ?thesis by simp
qed

text \<open>
  C4: from size 16 on, the shadow offset (size div 16) is strictly less than the margin
  (size div 8).
\<close>

theorem shadow_offset_less_padding:
  assumes "16 \<le> sz"
  shows "shadow_offset sz < padding sz"
  using assms unfolding shadow_offset_def padding_def by presburger

text \<open>C4 at size 16, the smallest size it speaks of.\<close>

theorem shadow_offset_less_padding_witness:
  "shadow_offset 16 = 1 \<and> padding 16 = 2 \<and> shadow_offset 16 < padding 16"
  using shadow_offset_less_padding [of 16] by (simp add: shadow_offset_def padding_def)

text \<open>
  C5: at size 128 the margin is 16, the corner radius 25, the shadow offset 8 and the stroke
  width 10; at size 16 they are 2, 3, 1 and 1, and every coordinate the drawer computes there
  is one of 2, 3, 6, 7, 9, 10, 14, 15, none of them negative.
\<close>

theorem measurements_128_and_16:
  "padding 128 = 16 \<and> radius 128 = 25 \<and> shadow_offset 128 = 8 \<and> line_width 128 = 10
   \<and> padding 16 = 2 \<and> radius 16 = 3 \<and> shadow_offset 16 = 1 \<and> line_width 16 = 1
   \<and> rect_coords 16 = [2, 2, 14, 14] \<and> shadow_coords 16 = [3, 3, 15, 15]
   \<and> line_x_start 16 = 6 \<and> line_x_end 16 = 10
   \<and> line_y_start 16 = 7 \<and> line_y_start 16 + line_spacing 16 = 9
   \<and> draw_icon 128 =
     Inr \<lparr>im_mode = ''RGBA'', im_size = (128, 128), im_background = RGBA 0 0 0 0,
          im_ops = [Rounded_rectangle [24, 24, 120, 120] 25 (RGBA 0 0 0 50),
                    Rounded_rectangle [16, 16, 112, 112] 25 (Named ''#FEF08A''),
                    Line [48, 58, 80, 58] (Named ''#D97706'') 10,
                    Line [48, 79, 80, 79] (Named ''#D97706'') 10]\<rparr>"
  by (simp add: draw_icon_ops geom_defs shadow_fill_def note_yellow_def amber_def)

text \<open>
  C10: from size 1 on, the margin lies between 0 and size minus margin, the shadow's box has
  no negative coordinate and is ordered (left before right, top before bottom), the strokes
  start left of where they end, and the drawing primitives accept what they receive: on any
  image, the two rounded rectangles are drawn, and the drawer never fails with the
  \<open>ValueError\<close> of a refused box.
\<close>

theorem geometry_well_ordered:
  assumes "1 \<le> sz"
  shows "0 \<le> padding sz \<and> padding sz \<le> sz - padding sz
     \<and> 0 \<le> shadow_coords sz ! 0 \<and> 0 \<le> shadow_coords sz ! 1
     \<and> 0 \<le> shadow_coords sz ! 2 \<and> 0 \<le> shadow_coords sz ! 3
     \<and> shadow_coords sz ! 0 \<le> shadow_coords sz ! 2
     \<and> shadow_coords sz ! 1 \<le> shadow_coords sz ! 3
     \<and> line_x_start sz \<le> line_x_end sz
     \<and> rounded_rectangle (shadow_coords sz) (radius sz) shadow_fill img
         = Inr (img\<lparr>im_ops := im_ops img
                  @ [Rounded_rectangle (shadow_coords sz) (radius sz) shadow_fill]\<rparr>)
     \<and> rounded_rectangle (rect_coords sz) (radius sz) note_yellow img
         = Inr (img\<lparr>im_ops := im_ops img
                  @ [Rounded_rectangle (rect_coords sz) (radius sz) note_yellow]\<rparr>)
     \<and> draw_icon sz \<noteq> Inl ValueError"
proof -
  have nonneg: "0 \<le> sz" using assms by simp
  have p0: "0 \<le> padding sz" using assms unfolding padding_def by presburger
  have p1: "padding sz \<le> sz - padding sz" using assms unfolding padding_def by presburger
  have o0: "0 \<le> shadow_offset sz" using assms unfolding shadow_offset_def by presburger
  have s0: "shadow_coords sz ! 0 = padding sz + shadow_offset sz"
    and s1: "shadow_coords sz ! 1 = padding sz + shadow_offset sz"
    and s2: "shadow_coords sz ! 2 = sz - padding sz + shadow_offset sz"
    and s3: "shadow_coords sz ! 3 = sz - padding sz + shadow_offset sz"
    by (simp_all add: shadow_coords_def rect_coords_def)
  have lx: "line_x_start sz \<le> line_x_end sz"
    unfolding line_x_start_def line_x_end_def rect_coords_def padding_def
    using assms by simp
  from p0 p1 o0 have sh: "0 \<le> shadow_coords sz ! 0" "0 \<le> shadow_coords sz ! 1"
    "0 \<le> shadow_coords sz ! 2" "0 \<le> shadow_coords sz ! 3"
    "shadow_coords sz ! 0 \<le> shadow_coords sz ! 2" "shadow_coords sz ! 1 \<le> shadow_coords sz ! 3"
    unfolding s0 s1 s2 s3 by linarith+
  note shadow = rounded_rectangle_shadow [OF nonneg radius_nonneg [OF nonneg], of shadow_fill img]
  note body = rounded_rectangle_rect [OF nonneg radius_nonneg [OF nonneg], of note_yellow img]
  have no_refusal: "draw_icon sz \<noteq> Inl ValueError"
    using draw_icon_error [of sz ValueError] nonneg by auto
  from p0 p1 sh lx shadow body no_refusal show ?thesis by blast
qed

text \<open>C10 at size 1, the smallest size it speaks of.\<close>

theorem geometry_well_ordered_witness:
  "padding 1 = 0 \<and> shadow_coords 1 = [0, 0, 1, 1] \<and> line_x_start 1 = 0 \<and> line_x_end 1 = 1
   \<and> rounded_rectangle (shadow_coords 1) (radius 1) shadow_fill
        \<lparr>im_mode = ''RGBA'', im_size = (1, 1), im_background = RGBA 0 0 0 0, im_ops = []\<rparr>
      = Inr \<lparr>im_mode = ''RGBA'', im_size = (1, 1), im_background = RGBA 0 0 0 0,
             im_ops = [Rounded_rectangle [0, 0, 1, 1] 0 (RGBA 0 0 0 50)]\<rparr>
   \<and> draw_icon 1 \<noteq> Inl ValueError"
  using geometry_well_ordered [of 1
      "\<lparr>im_mode = ''RGBA'', im_size = (1, 1), im_background = RGBA 0 0 0 0, im_ops = []\<rparr>"]
  by (simp add: geom_defs shadow_fill_def)

section \<open>Properties of the file system operations\<close>



lemma mkdir_Raised: "mkdir p s = (Raised e, s') \<Longrightarrow> s' = s"
  by (auto simp: mkdir_def split: if_splits)











lemma components_icon_path: "components icon_path = public_dir @ [''icon-128.png'']"
  by (simp add: components_def icon_path_def public_dir_def)



lemma open_wb_Done:
  "open_wb p s = (Done, s') \<Longrightarrow>
     isdir s (butlast p) \<and> \<not> isdir s p \<and> s' = s\<lparr>files := (files s)(p \<mapsto> [])\<rparr>"
  by (auto simp: open_wb_def split: if_splits)

lemma open_wb_ok:
  "isdir s (butlast p) \<Longrightarrow> \<not> isdir s p \<Longrightarrow> open_wb p s = (Done, s\<lparr>files := (files s)(p \<mapsto> [])\<rparr>)"
  by (simp add: open_wb_def)

lemma f_write_after_open:
  "f_write p data (s\<lparr>files := (files s)(p \<mapsto> [])\<rparr>) = s\<lparr>files := (files s)(p \<mapsto> data)\<rparr>"
  by (simp add: f_write_def)


section \<open>Properties of the drawer's script\<close>



section \<open>Properties of the decoder\<close>

lemma b64_char_value: "b64_char c \<Longrightarrow> \<exists>v. table_a2b_base64 c = Some v"
  by (auto simp: b64_char_def)

lemma b64_char_not_pad: "b64_char c \<Longrightarrow> c \<noteq> CHR ''=''"
  by (auto simp: b64_char_def table_a2b_base64_def)

lemma b64_char_ascii: "b64_char c \<Longrightarrow> (of_char c :: nat) < 128"
  by (auto simp: b64_char_def table_a2b_base64_def Let_def split: if_splits)

lemma a2b_base64_error: "a2b_base64 q l p bin s = Inl e \<Longrightarrow> e = binascii_Error"
  by (induction q l p bin s rule: a2b_base64.induct)
     (auto split: if_splits option.splits)

lemma b64decode_error: "b64decode s = Inl e \<Longrightarrow> e = binascii_Error \<or> e = ValueError"
  by (auto simp: b64decode_def dest: a2b_base64_error split: if_splits)





lemma a2b_base64_alphabet:
  assumes "\<forall>c \<in> set s. b64_char c" and "q < 4"
  shows "(\<exists>data. a2b_base64 q l p bin s = Inr data) = ((q + length s) mod 4 = 0)"
  using assms
proof (induction s arbitrary: q l p bin)
  case Nil
  then show ?case by simp
next
  case (Cons c s)
  from Cons.prems(1) have c: "b64_char c" by simp
  then obtain v where v: "table_a2b_base64 c = Some v" by (blast dest: b64_char_value)
  from c have np: "c \<noteq> CHR ''=''" by (rule b64_char_not_pad)
  from Cons.prems have rest: "\<forall>c \<in> set s. b64_char c" by simp
  from Cons.prems(2) consider "q = 0" | "q = 1" | "q = 2" | "q = 3" by linarith
  then show ?case
  proof cases
    case 1
    have step: "a2b_base64 0 l p bin (c # s) = a2b_base64 1 v 0 bin s"
      using v np by simp
    have len: "(0 + length (c # s)) mod 4 = (1 + length s) mod 4" by simp
    show ?thesis unfolding 1 step len by (rule Cons.IH [OF rest]) simp
  next
    case 2
    have step: "a2b_base64 1 l p bin (c # s)
        = a2b_base64 2 (v AND 0x0f) 0 (bin @ [push_bit 2 l OR drop_bit 4 v]) s"
      using v np by simp
    have len: "(1 + length (c # s)) mod 4 = (2 + length s) mod 4" by simp
    show ?thesis unfolding 2 step len by (rule Cons.IH [OF rest]) simp
  next
    case 3
    have step: "a2b_base64 2 l p bin (c # s)
        = a2b_base64 3 (v AND 0x03) 0 (bin @ [push_bit 4 l OR drop_bit 2 v]) s"
      using v np by simp
    have len: "(2 + length (c # s)) mod 4 = (3 + length s) mod 4" by simp
    show ?thesis unfolding 3 step len by (rule Cons.IH [OF rest]) simp
  next
    case 4
    have step: "a2b_base64 3 l p bin (c # s)
        = a2b_base64 0 0 0 (bin @ [push_bit 6 l OR v]) s"
      using v np by simp
    have len: "(3 + length (c # s)) mod 4 = (0 + length s) mod 4" by simp
    show ?thesis unfolding 4 step len by (rule Cons.IH [OF rest]) simp
  qed
qed

lemma b64decode_truncated:
  assumes "\<forall>c \<in> set s. b64_char c" and "length s mod 4 \<noteq> 0"
  shows "b64decode s = Inl binascii_Error"
proof -
  have ascii: "\<not> list_ex (\<lambda>c. 128 \<le> (of_char c :: nat)) s"
    using assms(1) by (simp add: list_ex_iff not_le b64_char_ascii)
  from a2b_base64_alphabet [OF assms(1), of 0 0 0 "[]"] assms(2)
  have "\<not> (\<exists>data. a2b_base64 0 0 0 [] s = Inr data)" by simp
  then obtain e where "a2b_base64 0 0 0 [] s = Inl e"
    by (cases "a2b_base64 0 0 0 [] s") auto
  then show ?thesis using ascii by (auto simp: b64decode_def dest: a2b_base64_error)
qed

section \<open>Properties of the decoder-writer\<close>

lemma decode_and_write_ok:
  assumes "b64decode payload = Inr data"
    and "isdir s (butlast (components icon_path))" and "\<not> isdir s (components icon_path)"
  shows "decode_and_write payload s
         = (Done, s\<lparr>files := (files s)(components icon_path \<mapsto> data)\<rparr>)"
  using assms by (simp add: decode_and_write_def open_wb_ok f_write_after_open)


lemma fresh_fs_destination:
  "isdir fresh_fs (butlast (components icon_path))" "\<not> isdir fresh_fs (components icon_path)"
  by (simp_all add: components_icon_path isdir_def fresh_fs_def public_dir_def)



text \<open>
  Against C6 as stated: the text \<open>aG!k=\<close> is not validly base64-encoded (it has a
  character outside the alphabet, and its length is no multiple of four), yet the decoder,
  which skips the characters outside the alphabet, accepts it, and the script writes the two
  bytes it stands for.
\<close>

theorem stray_character_is_decoded_and_written:
  "\<not> valid_base64 ''aG!k=''
   \<and> decode_and_write ''aG!k='' fresh_fs
     = (Done, fresh_fs\<lparr>files := [components icon_path \<mapsto> [104, 105]]\<rparr>)"
proof -
  have "\<not> valid_base64 ''aG!k=''" by (simp add: b64_char_def table_a2b_base64_def)
  moreover have "b64decode ''aG!k='' = Inr [104, 105]" by code_simp
  then have "decode_and_write ''aG!k='' fresh_fs
     = (Done, fresh_fs\<lparr>files := (files fresh_fs)(components icon_path \<mapsto> [104, 105])\<rparr>)"
    using fresh_fs_destination by (rule decode_and_write_ok)
  then have "decode_and_write ''aG!k='' fresh_fs
     = (Done, fresh_fs\<lparr>files := [components icon_path \<mapsto> [104, 105]]\<rparr>)"
    by (simp add: fresh_fs_def)
  ultimately show ?thesis by blast
qed

text \<open>
  C6, amended: if the decoder rejects the embedded text, the decoder-writer fails with the
  decoder's error (\<^verbatim>\<open>binascii.Error\<close>, or \<^verbatim>\<open>ValueError\<close> for a character outside
  ASCII) before any file is opened or written: the file system is left as it was.
\<close>

theorem decode_failure_writes_nothing:
  assumes "b64decode payload = Inl e"
  shows "decode_and_write payload s = (Raised e, s) \<and> (e = binascii_Error \<or> e = ValueError)"
  using assms b64decode_error [OF assms] by (simp add: decode_and_write_def)

text \<open>The amended C6 on the text \<open>aGk\<close>, whose padding is missing.\<close>

theorem decode_failure_writes_nothing_witness:
  "b64decode ''aGk'' = Inl binascii_Error
   \<and> decode_and_write ''aGk'' fresh_fs = (Raised binascii_Error, fresh_fs)"
proof -
  have dec: "b64decode ''aGk'' = Inl binascii_Error" by code_simp
  from decode_failure_writes_nothing [OF dec, of fresh_fs] dec show ?thesis by simp
qed

lemma icon_base64_decoded: "b64decode icon_base64 = Inr icon_png"
  unfolding icon_base64_def by code_simp

text \<open>
  C9: the text embedded in the script is validly base64-encoded and decodes to the 191 bytes
  of a PNG file, so the script never fails with a decoding error, whatever the file system.
\<close>

theorem embedded_payload_decodes:
  "valid_base64 icon_base64 \<and> b64decode icon_base64 = Inr icon_png
   \<and> length icon_png = 191 \<and> take 8 icon_png = [137, 80, 78, 71, 13, 10, 26, 10]
   \<and> fst (create_icon_py s) \<noteq> Raised binascii_Error
   \<and> fst (create_icon_py s) \<noteq> Raised ValueError"
proof -
  have valid: "valid_base64 icon_base64"
    unfolding icon_base64_def by (simp add: b64_char_def table_a2b_base64_def)
  have png: "length icon_png = 191" "take 8 icon_png = [137, 80, 78, 71, 13, 10, 26, 10]"
    by (simp_all add: icon_png_def)
  have "fst (create_icon_py s) \<noteq> Raised binascii_Error \<and> fst (create_icon_py s) \<noteq> Raised ValueError"
    by (simp add: create_icon_py_def decode_and_write_def icon_base64_decoded open_wb_def)
  with valid icon_base64_decoded png show ?thesis by blast
qed

end
